theory Spec2Isabelle
  imports Complex_Main
begin

section \<open>The DENM annotator: record model and box geometry\<close>

text \<open>
  A shallow embedding of \<^verbatim>\<open>src/index.tsx\<close>: the incident record and its
  derivation engine (\<^verbatim>\<open>updateField\<close>), the box sink (\<^verbatim>\<open>updateBox\<close>), the
  export and import transforms (\<^verbatim>\<open>downloadJson\<close>, \<^verbatim>\<open>processJsonFile\<close>) and the
  pointer handler of the overlay (\<^verbatim>\<open>BoxOverlay.handleMove\<close>).

  Numbers. The incident flag and the cause codes are integer codes and are modelled as
  \<^typ>\<open>int\<close>; times, coordinates and pixel positions are JavaScript numbers and are
  modelled as \<^typ>\<open>real\<close> (finite values: no NaN, no infinity, no rounding error of
  the double format).
\<close>

subsection \<open>The cause and sub-cause table\<close>

record cause_info =
  name :: string
  subCauseCodes :: "(string \<times> string) list"

text \<open>\<^verbatim>\<open>DENM_MAPPING.causeCodes\<close>, an object keyed by strings, in the source's order.\<close>

definition DENM_causeCodes :: "(string \<times> cause_info) list" where
  "DENM_causeCodes =
    [(''2'', \<lparr>name = ''accident'',
        subCauseCodes = [(''7'', ''unsecured accident'')]\<rparr>),
     (''3'', \<lparr>name = ''roadworks'',
        subCauseCodes = [(''2'', ''road marking work''),
                         (''3'', ''slow moving road maintenance''),
                         (''4'', ''short-term stationary roadworks'')]\<rparr>),
     (''6'', \<lparr>name = ''adverseWeatherCondition-adhesion'',
        subCauseCodes = [(''0'', ''slippery road (generic)''),
                         (''2'', ''fuel on road''),
                         (''3'', ''mud on road''),
                         (''5'', ''ice on road''),
                         (''6'', ''black ice on road''),
                         (''7'', ''oil on road''),
                         (''8'', ''loose chippings'')]\<rparr>),
     (''9'', \<lparr>name = ''hazardousLocation-surfaceCondition'',
        subCauseCodes = [(''0'', ''flooding''),
                         (''5'', ''snow drifts'')]\<rparr>),
     (''10'', \<lparr>name = ''hazardousLocation-obstacleOnTheRoad'',
        subCauseCodes = [(''0'', ''objects on the road''),
                         (''1'', ''shed load''),
                         (''4'', ''large objects''),
                         (''5'', ''fallen trees'')]\<rparr>),
     (''11'', \<lparr>name = ''hazardousLocation-animalOnTheRoad'',
        subCauseCodes = [(''0'', ''animals on roadway''),
                         (''2'', ''herd of animals''),
                         (''4'', ''large animals'')]\<rparr>),
     (''12'', \<lparr>name = ''humanPresenceOnTheRoad'',
        subCauseCodes = [(''0'', ''people on roadway''),
                         (''1'', ''children on roadway''),
                         (''2'', ''cyclists on roadway'')]\<rparr>),
     (''14'', \<lparr>name = ''wrongWayDriving'',
        subCauseCodes = [(''0'', ''wrong way driving'')]\<rparr>),
     (''15'', \<lparr>name = ''rescueAndRecoveryWorkInProgress'',
        subCauseCodes = [(''0'', ''rescue and recovery work in progress'')]\<rparr>),
     (''17'', \<lparr>name = ''adverseWeatherCondition-ExtremeWeather'',
        subCauseCodes = [(''1'', ''strong winds'')]\<rparr>),
     (''18'', \<lparr>name = ''adverseWeatherCondition-Visibility'',
        subCauseCodes = [(''0'', ''visibility reduced (generic)''),
                         (''1'', ''visibility reduced due to fog''),
                         (''2'', ''visibility reduced due to smoke''),
                         (''3'', ''visibility reduced due to heavy snowfall''),
                         (''6'', ''visibility reduced due to low sun glare'')]\<rparr>),
     (''19'', \<lparr>name = ''adverseWeatherCondition-Precipitation'',
        subCauseCodes = [(''1'', ''heavy rain''),
                         (''2'', ''heavy snowfall'')]\<rparr>),
     (''94'', \<lparr>name = ''vehicleBreakdown'',
        subCauseCodes = [(''2'', ''broken down vehicle'')]\<rparr>)]"

text \<open>
  \<^verbatim>\<open>String(v)\<close> on an integer code: its decimal digits, with a leading minus sign
  for a negative one; \<^verbatim>\<open>String(null)\<close> is the text \<^verbatim>\<open>null\<close>.
\<close>

definition digit_char :: "nat \<Rightarrow> char" where
  "digit_char d = ''0123456789'' ! d"

fun String_nat :: "nat \<Rightarrow> string" where
  "String_nat n =
     (if n < 10 then [digit_char n]
      else String_nat (n div 10) @ [digit_char (n mod 10)])"

declare String_nat.simps [simp del]

definition String_num :: "int \<Rightarrow> string" where
  "String_num v = (if v < 0 then CHR ''-'' # String_nat (nat (- v)) else String_nat (nat v))"

definition String_code :: "int option \<Rightarrow> string" where
  "String_code c = (case c of None \<Rightarrow> ''null'' | Some v \<Rightarrow> String_num v)"

subsection \<open>The incident record\<close>

text \<open>\<^verbatim>\<open>IncidentBox = [t, ymin, xmin, ymax, xmax]\<close>.\<close>

type_synonym IncidentBox = "real \<times> real \<times> real \<times> real \<times> real"

record IncidentData =
  incident :: int
  message_type :: string
  cause_code :: "int option"
  sub_cause_code :: "int option"
  cause_text :: "string option"
  sub_cause_text :: "string option"
  box_2d :: "IncidentBox list"
  description :: string

record conversation =
  from' :: string
  value' :: string

text \<open>
  \<^verbatim>\<open>DatasetItem\<close>. The field \<^verbatim>\<open>_parsed\<close> is optional in the source, the code
  tests \<^verbatim>\<open>conversations\<close> for absence, and \<^verbatim>\<open>type\<close> is one of the free root
  fields: all three are options, \<open>None\<close> for an absent field.
\<close>

record DatasetItem =
  id' :: int
  video :: string
  conversations :: "conversation list option"
  parsed :: "IncidentData option"
  type' :: "string option"

subsection \<open>The derivation engine: \<^verbatim>\<open>updateField\<close>\<close>

text \<open>
  A call \<^verbatim>\<open>updateField(key, value)\<close> names a field of \<^verbatim>\<open>IncidentData\<close> and a
  value for it. The model pairs each key with a value of the type the interface gives
  that field; a value of another type is not represented.
\<close>

datatype field_update =
    Set_incident int
  | Set_message_type string
  | Set_cause_code "int option"
  | Set_sub_cause_code "int option"
  | Set_cause_text "string option"
  | Set_sub_cause_text "string option"
  | Set_box_2d "IncidentBox list"
  | Set_description string

text \<open>\<^verbatim>\<open>x || null\<close> on a string that may be undefined: the empty string is falsy.\<close>

definition text_or_null :: "string option \<Rightarrow> string option" where
  "text_or_null s = (case s of None \<Rightarrow> None | Some t \<Rightarrow> if t = [] then None else Some t)"

text \<open>
  The body of the state updater, on the copy \<^verbatim>\<open>parsed\<close> of the selected item's
  record: first the assignment \<^verbatim>\<open>parsed[key] = value\<close>, then the branches on the key.
\<close>

fun updateParsed :: "field_update \<Rightarrow> IncidentData \<Rightarrow> IncidentData" where
  "updateParsed (Set_incident v) p =
     (if v = 1 then
        p\<lparr>incident := v, message_type := ''DENM'',
          box_2d := (if length (box_2d p) \<noteq> 2
                     then [(0, 0, 0, 0, 0), (1, 0, 0, 0, 0)] else box_2d p)\<rparr>
      else
        p\<lparr>incident := v, message_type := ''none'', cause_code := None,
          sub_cause_code := None, cause_text := None, sub_cause_text := None,
          box_2d := []\<rparr>)"
| "updateParsed (Set_cause_code v) p =
     (if v = None \<or> v = Some 0 then
        p\<lparr>cause_code := None, cause_text := None,
          sub_cause_code := None, sub_cause_text := None\<rparr>
      else
        p\<lparr>cause_code := v,
          cause_text := (case map_of DENM_causeCodes (String_code v) of
                           Some info \<Rightarrow> Some (name info) | None \<Rightarrow> None),
          sub_cause_code := None, sub_cause_text := None\<rparr>)"
| "updateParsed (Set_sub_cause_code v) p =
     (if v = None \<or> v = Some 0 then
        p\<lparr>sub_cause_code := None, sub_cause_text := None\<rparr>
      else
        (case map_of DENM_causeCodes (String_code (cause_code p)) of
           Some info \<Rightarrow>
             p\<lparr>sub_cause_code := v,
               sub_cause_text := text_or_null (map_of (subCauseCodes info) (String_code v))\<rparr>
         | None \<Rightarrow> p\<lparr>sub_cause_code := v\<rparr>))"
| "updateParsed (Set_message_type v) p = p\<lparr>message_type := v\<rparr>"
| "updateParsed (Set_cause_text v) p = p\<lparr>cause_text := v\<rparr>"
| "updateParsed (Set_sub_cause_text v) p = p\<lparr>sub_cause_text := v\<rparr>"
| "updateParsed (Set_box_2d v) p = p\<lparr>box_2d := v\<rparr>"
| "updateParsed (Set_description v) p = p\<lparr>description := v\<rparr>"

text \<open>
  The state updater itself. \<^verbatim>\<open>prev\<close> is returned as it is when no item is selected
  (\<open>-1\<close>), when the index is outside the list (the copy of \<^verbatim>\<open>undefined\<close> has no
  \<^verbatim>\<open>_parsed\<close>) and when the item has no \<^verbatim>\<open>_parsed\<close>.
\<close>

definition updateField :: "int \<Rightarrow> field_update \<Rightarrow> DatasetItem list \<Rightarrow> DatasetItem list" where
  "updateField selectedItemIndex u prev =
     (if selectedItemIndex = - 1 then prev
      else if selectedItemIndex < 0 \<or> int (length prev) \<le> selectedItemIndex then prev
      else
        (case parsed (prev ! nat selectedItemIndex) of
           None \<Rightarrow> prev
         | Some p \<Rightarrow>
             prev[nat selectedItemIndex :=
                    (prev ! nat selectedItemIndex)\<lparr>parsed := Some (updateParsed u p)\<rparr>]))"

subsection \<open>The box sink: \<^verbatim>\<open>updateBox\<close>\<close>

text \<open>The index of a keyframe box has the type \<^verbatim>\<open>0 | 1\<close>.\<close>

datatype keyframe = K0 | K1

fun keyframe_index :: "keyframe \<Rightarrow> nat" where
  "keyframe_index K0 = 0"
| "keyframe_index K1 = 1"

text \<open>\<^verbatim>\<open>Math.round\<close>: the nearest integer, a tie going up.\<close>

definition Math_round :: "real \<Rightarrow> real" where
  "Math_round x = of_int \<lfloor>x + 1 / 2\<rfloor>"

text \<open>The constant \<^verbatim>\<open>clamped\<close> of \<^verbatim>\<open>updateBox\<close>, as a function of \<^verbatim>\<open>newBox\<close>.\<close>

fun clamped :: "IncidentBox \<Rightarrow> IncidentBox" where
  "clamped (t, ymin, xmin, ymax, xmax) =
     (t,
      Math_round (max 0 (min 1000 ymin)),
      Math_round (max 0 (min 1000 xmin)),
      Math_round (max 0 (min 1000 ymax)),
      Math_round (max 0 (min 1000 xmax)))"

definition updateBox :: "int \<Rightarrow> keyframe \<Rightarrow> IncidentBox \<Rightarrow> DatasetItem list \<Rightarrow> DatasetItem list" where
  "updateBox selectedItemIndex idx newBox prev =
     (if selectedItemIndex = - 1 then prev
      else if selectedItemIndex < 0 \<or> int (length prev) \<le> selectedItemIndex then prev
      else
        (case parsed (prev ! nat selectedItemIndex) of
           None \<Rightarrow> prev
         | Some p \<Rightarrow>
             if incident p = 1 \<and> length (box_2d p) = 2 then
               prev[nat selectedItemIndex :=
                      (prev ! nat selectedItemIndex)
                        \<lparr>parsed := Some (p\<lparr>box_2d := (box_2d p)[keyframe_index idx := clamped newBox]\<rparr>)\<rparr>]
             else prev))"

text \<open>
  What the component renders from: \<^verbatim>\<open>jsonData[selectedItemIndex]?._parsed\<close>, absent
  when the index selects no item.
\<close>

definition selected_parsed :: "int \<Rightarrow> DatasetItem list \<Rightarrow> IncidentData option" where
  "selected_parsed selectedItemIndex jsonData =
     (if 0 \<le> selectedItemIndex \<and> selectedItemIndex < int (length jsonData)
      then parsed (jsonData ! nat selectedItemIndex) else None)"

definition selected_boxes :: "int \<Rightarrow> DatasetItem list \<Rightarrow> IncidentBox list" where
  "selected_boxes selectedItemIndex jsonData =
     (case selected_parsed selectedItemIndex jsonData of
        None \<Rightarrow> [] | Some p \<Rightarrow> box_2d p)"

text \<open>
  The coordinate controls of the toolbar, rendered when the selected record has
  \<^verbatim>\<open>incident === 1\<close> and two boxes: \<^verbatim>\<open>onChange(v)\<close> copies the active box,
  overwrites one coordinate and hands the copy to \<^verbatim>\<open>updateBox\<close>.
\<close>

datatype coord = Y_Min | X_Min | Y_Max | X_Max

fun set_coord :: "coord \<Rightarrow> real \<Rightarrow> IncidentBox \<Rightarrow> IncidentBox" where
  "set_coord Y_Min v (t, ymin, xmin, ymax, xmax) = (t, v, xmin, ymax, xmax)"
| "set_coord X_Min v (t, ymin, xmin, ymax, xmax) = (t, ymin, v, ymax, xmax)"
| "set_coord Y_Max v (t, ymin, xmin, ymax, xmax) = (t, ymin, xmin, v, xmax)"
| "set_coord X_Max v (t, ymin, xmin, ymax, xmax) = (t, ymin, xmin, ymax, v)"

definition coordChange :: "int \<Rightarrow> keyframe \<Rightarrow> coord \<Rightarrow> real \<Rightarrow> DatasetItem list \<Rightarrow> DatasetItem list" where
  "coordChange selectedItemIndex activeKeyframe c v jsonData =
     (case selected_parsed selectedItemIndex jsonData of
        None \<Rightarrow> jsonData
      | Some p \<Rightarrow>
          if incident p = 1 \<and> length (box_2d p) = 2 then
            updateBox selectedItemIndex activeKeyframe
              (set_coord c v (box_2d p ! keyframe_index activeKeyframe)) jsonData
          else jsonData)"

text \<open>
  The manual time input of the toolbar, rendered under the same condition. It declares
  \<^verbatim>\<open>min={0}\<close> and \<^verbatim>\<open>max={duration}\<close>; \<^verbatim>\<open>onChange\<close> parses the typed text to
  the number \<open>s\<close> (unparsable text changes nothing and is not represented) and, when
  the duration is positive, hands the active box with the time \<^verbatim>\<open>s / duration\<close> to
  \<^verbatim>\<open>updateBox\<close>.
\<close>

definition timeChange :: "int \<Rightarrow> keyframe \<Rightarrow> real \<Rightarrow> real \<Rightarrow> DatasetItem list \<Rightarrow> DatasetItem list" where
  "timeChange selectedItemIndex activeKeyframe s duration jsonData =
     (case selected_parsed selectedItemIndex jsonData of
        None \<Rightarrow> jsonData
      | Some p \<Rightarrow>
          if incident p = 1 \<and> length (box_2d p) = 2 then
            if duration > 0 then
              updateBox selectedItemIndex activeKeyframe
                (case box_2d p ! keyframe_index activeKeyframe of
                   (t, ymin, xmin, ymax, xmax) \<Rightarrow> (s / duration, ymin, xmin, ymax, xmax))
                jsonData
            else jsonData
          else jsonData)"

subsection \<open>The overlay's pointer handler: \<^verbatim>\<open>BoxOverlay.handleMove\<close>\<close>

datatype drag_mode =
    Mode_move | Mode_nw | Mode_ne | Mode_sw | Mode_se
  | Mode_n | Mode_s | Mode_e | Mode_w | Mode_draw

record DOMRect =
  left :: real
  top' :: real
  width :: real
  height :: real

record DragState =
  mode :: drag_mode
  startX :: real
  startY :: real
  startBox :: IncidentBox
  rect :: DOMRect

record MouseEvent =
  clientX :: real
  clientY :: real

definition normalize :: "real \<Rightarrow> real \<Rightarrow> real" where
  "normalize val d = (val / d) * 1000"

text \<open>
  The chain of branches on the mode, on \<^verbatim>\<open>(nYmin, nXmin, nYmax, nXmax)\<close>; the draw
  mode has returned before the chain and matches none of its branches.
\<close>

fun apply_mode :: "drag_mode \<Rightarrow> real \<Rightarrow> real \<Rightarrow> real \<times> real \<times> real \<times> real \<Rightarrow> real \<times> real \<times> real \<times> real" where
  "apply_mode Mode_move dx dy (nYmin, nXmin, nYmax, nXmax) = (nYmin + dy, nXmin + dx, nYmax + dy, nXmax + dx)"
| "apply_mode Mode_nw dx dy (nYmin, nXmin, nYmax, nXmax) = (nYmin + dy, nXmin + dx, nYmax, nXmax)"
| "apply_mode Mode_ne dx dy (nYmin, nXmin, nYmax, nXmax) = (nYmin + dy, nXmin, nYmax, nXmax + dx)"
| "apply_mode Mode_sw dx dy (nYmin, nXmin, nYmax, nXmax) = (nYmin, nXmin + dx, nYmax + dy, nXmax)"
| "apply_mode Mode_se dx dy (nYmin, nXmin, nYmax, nXmax) = (nYmin, nXmin, nYmax + dy, nXmax + dx)"
| "apply_mode Mode_n dx dy (nYmin, nXmin, nYmax, nXmax) = (nYmin + dy, nXmin, nYmax, nXmax)"
| "apply_mode Mode_s dx dy (nYmin, nXmin, nYmax, nXmax) = (nYmin, nXmin, nYmax + dy, nXmax)"
| "apply_mode Mode_w dx dy (nYmin, nXmin, nYmax, nXmax) = (nYmin, nXmin + dx, nYmax, nXmax)"
| "apply_mode Mode_e dx dy (nYmin, nXmin, nYmax, nXmax) = (nYmin, nXmin, nYmax, nXmax + dx)"
| "apply_mode Mode_draw dx dy (nYmin, nXmin, nYmax, nXmax) = (nYmin, nXmin, nYmax, nXmax)"

text \<open>
  The min/max reconciliation and the clamp that end both paths of the handler.
\<close>

fun clampedBox :: "real \<Rightarrow> real \<times> real \<times> real \<times> real \<Rightarrow> IncidentBox" where
  "clampedBox t (nYmin, nXmin, nYmax, nXmax) =
     (t,
      max 0 (min 1000 (min nYmin nYmax)),
      max 0 (min 1000 (min nXmin nXmax)),
      max 0 (min 1000 (max nYmin nYmax)),
      max 0 (min 1000 (max nXmin nXmax)))"

text \<open>
  \<open>handleMove\<close> returns the box it hands to \<^verbatim>\<open>onUpdate(activeKeyframe, _)\<close>, or
  \<open>None\<close> when it returns without calling it.
\<close>

definition handleMove :: "DragState \<Rightarrow> MouseEvent \<Rightarrow> IncidentBox option" where
  "handleMove dragState e =
     (if width (rect dragState) = 0 \<or> height (rect dragState) = 0 then None
      else if mode dragState = Mode_draw then
        (let dx = clientX e - startX dragState;
             dy = clientY e - startY dragState
         in if sqrt (dx * dx + dy * dy) < 15 then None
            else
              (let startXRel = normalize (startX dragState - left (rect dragState)) (width (rect dragState));
                   startYRel = normalize (startY dragState - top' (rect dragState)) (height (rect dragState));
                   currXRel = normalize (clientX e - left (rect dragState)) (width (rect dragState));
                   currYRel = normalize (clientY e - top' (rect dragState)) (height (rect dragState))
               in Some (clampedBox (fst (startBox dragState))
                          (startYRel, startXRel, currYRel, currXRel))))
      else
        (let dxPx = clientX e - startX dragState;
             dyPx = clientY e - startY dragState;
             dx = (dxPx / width (rect dragState)) * 1000;
             dy = (dyPx / height (rect dragState)) * 1000
         in Some (clampedBox (fst (startBox dragState))
                    (apply_mode (mode dragState) dx dy (snd (startBox dragState))))))"

text \<open>
  The mouse-down handlers of the overlay (the container is mounted) capture the pointer
  position, a copy of the active box and the container's rectangle.
\<close>

definition startDrag :: "drag_mode \<Rightarrow> MouseEvent \<Rightarrow> IncidentBox list \<Rightarrow> keyframe \<Rightarrow> DOMRect \<Rightarrow> DragState" where
  "startDrag m e boxData activeKeyframe r =
     \<lparr>mode = m, startX = clientX e, startY = clientY e,
      startBox = boxData ! keyframe_index activeKeyframe, rect = r\<rparr>"

text \<open>One pointer move of a drag: the handler, then the sink \<^verbatim>\<open>onUpdate = updateBox\<close>.\<close>

definition dragMove :: "int \<Rightarrow> keyframe \<Rightarrow> DragState \<Rightarrow> MouseEvent \<Rightarrow> DatasetItem list \<Rightarrow> DatasetItem list" where
  "dragMove selectedItemIndex activeKeyframe dragState e jsonData =
     (case handleMove dragState e of
        None \<Rightarrow> jsonData
      | Some b \<Rightarrow> updateBox selectedItemIndex activeKeyframe b jsonData)"

subsection \<open>Example data\<close>

definition incident_record :: "IncidentBox \<Rightarrow> IncidentBox \<Rightarrow> IncidentData" where
  "incident_record b0 b1 =
     \<lparr>incident = 1, message_type = ''DENM'', cause_code = None, sub_cause_code = None,
      cause_text = None, sub_cause_text = None, box_2d = [b0, b1], description = []\<rparr>"

definition item_of :: "IncidentData \<Rightarrow> DatasetItem" where
  "item_of p = \<lparr>id' = 0, video = ''clip.mp4'', conversations = None, parsed = Some p, type' = None\<rparr>"

text \<open>The default record of \<^verbatim>\<open>processJsonFile\<close> and \<^verbatim>\<open>startWorkspace\<close>.\<close>

definition default_record :: IncidentData where
  "default_record =
     \<lparr>incident = 0, message_type = ''none'', cause_code = None, sub_cause_code = None,
      cause_text = None, sub_cause_text = None, box_2d = [], description = []\<rparr>"

subsection \<open>Export and import: \<^verbatim>\<open>downloadJson\<close> and \<^verbatim>\<open>processJsonFile\<close>\<close>

text \<open>\<^verbatim>\<open>x || null\<close> on a code: null, undefined and 0 are falsy.\<close>

definition code_or_null :: "int option \<Rightarrow> int option" where
  "code_or_null c = (case c of None \<Rightarrow> None | Some v \<Rightarrow> if v = 0 then None else Some v)"

text \<open>
  The record \<^verbatim>\<open>cleanParsed\<close> of \<^verbatim>\<open>downloadJson\<close>, from \<^verbatim>\<open>newItem._parsed || {}\<close>:
  without \<^verbatim>\<open>_parsed\<close> every field read is undefined. An array and a string that
  are present pass \<^verbatim>\<open>|| []\<close> and \<^verbatim>\<open>|| ""\<close> unchanged.
\<close>

definition cleanParsed :: "IncidentData option \<Rightarrow> IncidentData" where
  "cleanParsed q =
     (case q of
        None \<Rightarrow>
          \<lparr>incident = 0, message_type = ''none'', cause_code = None, sub_cause_code = None,
           cause_text = None, sub_cause_text = None, box_2d = [], description = []\<rparr>
      | Some p \<Rightarrow>
          \<lparr>incident = (if incident p = 0 then 0 else incident p),
           message_type = (if incident p = 1 then ''DENM'' else ''none''),
           cause_code = (if incident p = 1 then code_or_null (cause_code p) else None),
           sub_cause_code = (if incident p = 1 then code_or_null (sub_cause_code p) else None),
           cause_text = (if incident p = 1 then text_or_null (cause_text p) else None),
           sub_cause_text = (if incident p = 1 then text_or_null (sub_cause_text p) else None),
           box_2d = (if incident p = 1 then box_2d p else []),
           description = description p\<rparr>)"

text \<open>\<^verbatim>\<open>toLowerCase\<close>, on the letters A to Z; other bytes are kept.\<close>

definition lower_char :: "char \<Rightarrow> char" where
  "lower_char c =
     (case map_of (zip ''ABCDEFGHIJKLMNOPQRSTUVWXYZ'' ''abcdefghijklmnopqrstuvwxyz'') c of
        Some l \<Rightarrow> l
      | None \<Rightarrow> c)"

definition toLowerCase :: "string \<Rightarrow> string" where
  "toLowerCase s = map lower_char s"

text \<open>The root field \<^verbatim>\<open>type\<close>, computed from \<^verbatim>\<open>cleanParsed\<close>.\<close>

definition type_of_clean :: "IncidentData \<Rightarrow> string" where
  "type_of_clean c =
     (case (if incident c = 1 then text_or_null (cause_text c) else None) of
        None \<Rightarrow> ''none''
      | Some ct \<Rightarrow>
          (let cText = toLowerCase ct;
               sText = (case text_or_null (sub_cause_text c) of
                          None \<Rightarrow> [] | Some st \<Rightarrow> toLowerCase st)
           in if sText \<noteq> [] then cText @ '' - '' @ sText else cText))"

text \<open>\<^verbatim>\<open>Array.prototype.findIndex\<close>, with \<open>None\<close> for \<open>-1\<close>.\<close>

fun findIndex :: "('a \<Rightarrow> bool) \<Rightarrow> 'a list \<Rightarrow> nat option" where
  "findIndex P [] = None"
| "findIndex P (x # xs) = (if P x then Some 0 else map_option Suc (findIndex P xs))"

abbreviation isAssistant :: "conversation \<Rightarrow> bool" where
  "isAssistant \<equiv> (\<lambda>c. from' c = ''assistant'')"

text \<open>
  The conversations of the exported item. A missing or empty list becomes the prompt of
  the human and the assistant's message; else the first assistant message has its value
  replaced, or an assistant message is appended when there is none.
\<close>

definition replaceOrAppend :: "string \<Rightarrow> conversation list \<Rightarrow> conversation list" where
  "replaceOrAppend jsonStr cs =
     (case findIndex isAssistant cs of
        Some assistantIdx \<Rightarrow> cs[assistantIdx := (cs ! assistantIdx)\<lparr>value' := jsonStr\<rparr>]
      | None \<Rightarrow> cs @ [\<lparr>from' = ''assistant'', value' = jsonStr\<rparr>])"

definition withAssistant :: "string \<Rightarrow> string \<Rightarrow> conversation list option \<Rightarrow> conversation list" where
  "withAssistant prompt jsonStr convs =
     (case convs of
        None \<Rightarrow> [\<lparr>from' = ''human'', value' = prompt\<rparr>, \<lparr>from' = ''assistant'', value' = jsonStr\<rparr>]
      | Some cs \<Rightarrow>
          if length cs = 0 then
            [\<lparr>from' = ''human'', value' = prompt\<rparr>, \<lparr>from' = ''assistant'', value' = jsonStr\<rparr>]
          else replaceOrAppend jsonStr cs)"

text \<open>
  One item of the export. \<^verbatim>\<open>JSON.stringify\<close> is the platform's and is a parameter, as
  is the literal text of the prompt; the exported item has no \<^verbatim>\<open>_parsed\<close>.
\<close>

definition downloadItem :: "(IncidentData \<Rightarrow> string) \<Rightarrow> string \<Rightarrow> DatasetItem \<Rightarrow> DatasetItem" where
  "downloadItem JSON_stringify prompt item =
     (let clean = cleanParsed (parsed item);
          jsonStr = JSON_stringify clean
      in item\<lparr>conversations := Some (withAssistant prompt jsonStr (conversations item)),
              type' := Some (type_of_clean clean),
              parsed := None\<rparr>)"

definition downloadJson :: "(IncidentData \<Rightarrow> string) \<Rightarrow> string \<Rightarrow> DatasetItem list \<Rightarrow> DatasetItem list" where
  "downloadJson JSON_stringify prompt jsonData = map (downloadItem JSON_stringify prompt) jsonData"

text \<open>
  One item of the import. \<^verbatim>\<open>JSON.parse\<close> is the platform's and is a parameter:
  \<open>None\<close> when it throws, which the handler answers with the default record, as it does
  a missing assistant message and an empty value.
\<close>

definition processItem :: "(string \<Rightarrow> IncidentData option) \<Rightarrow> DatasetItem \<Rightarrow> DatasetItem" where
  "processItem JSON_parse item =
     (case (case conversations item of
              None \<Rightarrow> None
            | Some cs \<Rightarrow> find isAssistant cs) of
        None \<Rightarrow> item\<lparr>parsed := Some default_record\<rparr>
      | Some assistant \<Rightarrow>
          if value' assistant \<noteq> [] then
            (case JSON_parse (value' assistant) of
               Some d \<Rightarrow> item\<lparr>parsed := Some d\<rparr>
             | None \<Rightarrow> item\<lparr>parsed := Some default_record\<rparr>)
          else item\<lparr>parsed := Some default_record\<rparr>)"

definition processJsonFile :: "(string \<Rightarrow> IncidentData option) \<Rightarrow> DatasetItem list \<Rightarrow> DatasetItem list" where
  "processJsonFile JSON_parse arr = map (processItem JSON_parse) arr"

subsection \<open>Vocabulary of the properties\<close>

text \<open>The keys of the sub-cause table of the cause stored under key \<open>k\<close>.\<close>

definition sub_cause_keys :: "string \<Rightarrow> string list" where
  "sub_cause_keys k =
     (case map_of DENM_causeCodes k of None \<Rightarrow> [] | Some info \<Rightarrow> map fst (subCauseCodes info))"

definition is_integer :: "real \<Rightarrow> bool" where
  "is_integer x = (of_int \<lfloor>x\<rfloor> = x)"

definition coord_valid :: "real \<Rightarrow> bool" where
  "coord_valid x = (is_integer x \<and> 0 \<le> x \<and> x \<le> 1000)"

fun box_coords_valid :: "IncidentBox \<Rightarrow> bool" where
  "box_coords_valid (t, ymin, xmin, ymax, xmax) =
     (coord_valid ymin \<and> coord_valid xmin \<and> coord_valid ymax \<and> coord_valid xmax)"

fun box_time_valid :: "IncidentBox \<Rightarrow> bool" where
  "box_time_valid (t, ymin, xmin, ymax, xmax) = (0 \<le> t \<and> t \<le> 1)"

fun box_ordered :: "IncidentBox \<Rightarrow> bool" where
  "box_ordered (t, ymin, xmin, ymax, xmax) = (ymin \<le> ymax \<and> xmin \<le> xmax)"

text \<open>The pointer travel since the drag origin, as the handler measures it.\<close>

definition travel :: "DragState \<Rightarrow> MouseEvent \<Rightarrow> real" where
  "travel dragState e =
     sqrt ((clientX e - startX dragState) * (clientX e - startX dragState)
           + (clientY e - startY dragState) * (clientY e - startY dragState))"

subsection \<open>The invariants of the data model\<close>

text \<open>
  The four numbered invariants of the data model, in the specification's words:
  (1) flag 0 implies message type "none", null codes and texts and no boxes; (2) flag 1
  implies message type "DENM" and two boxes; (3) a sub-cause code that is set implies a
  cause code that is set, with the sub-cause a key of that cause's table; (4) every box
  has integer coordinates in \<open>[0,1000]\<close> and a time in \<open>[0,1]\<close>.
\<close>

definition invariant_1 :: "IncidentData \<Rightarrow> bool" where
  "invariant_1 R =
     (incident R = 0 \<longrightarrow>
        message_type R = ''none'' \<and> cause_code R = None \<and> sub_cause_code R = None
        \<and> cause_text R = None \<and> sub_cause_text R = None \<and> box_2d R = [])"

definition invariant_2 :: "IncidentData \<Rightarrow> bool" where
  "invariant_2 R = (incident R = 1 \<longrightarrow> message_type R = ''DENM'' \<and> length (box_2d R) = 2)"

definition invariant_3 :: "IncidentData \<Rightarrow> bool" where
  "invariant_3 R =
     (case sub_cause_code R of
        None \<Rightarrow> True
      | Some s \<Rightarrow>
          (case cause_code R of
             None \<Rightarrow> False
           | Some c \<Rightarrow> String_num s \<in> set (sub_cause_keys (String_num c))))"

definition invariant_4 :: "IncidentData \<Rightarrow> bool" where
  "invariant_4 R = list_all (\<lambda>b. box_coords_valid b \<and> box_time_valid b) (box_2d R)"

definition invariants :: "IncidentData \<Rightarrow> bool" where
  "invariants R = (invariant_1 R \<and> invariant_2 R \<and> invariant_3 R \<and> invariant_4 R)"

text \<open>
  The updates of the authored fields: the incident flag; a cause code, cleared (null or
  0) or set on a record whose flag is not 0; a sub-cause code, cleared (null or 0) or set
  to a key of the current cause's table on a record whose flag is not 0; the description.
  The derived fields (message type, both texts) and the boxes are not authored through
  \<open>updateField\<close>.
\<close>

fun authored_update :: "IncidentData \<Rightarrow> field_update \<Rightarrow> bool" where
  "authored_update R (Set_incident v) = True"
| "authored_update R (Set_cause_code v) = (v = None \<or> v = Some 0 \<or> incident R \<noteq> 0)"
| "authored_update R (Set_sub_cause_code v) =
     (case v of
        None \<Rightarrow> True
      | Some s \<Rightarrow>
          s = 0 \<or>
          (incident R \<noteq> 0 \<and>
           (case cause_code R of
              None \<Rightarrow> False
            | Some c \<Rightarrow> String_num s \<in> set (sub_cause_keys (String_num c)))))"
| "authored_update R (Set_description v) = True"
| "authored_update R (Set_message_type v) = False"
| "authored_update R (Set_cause_text v) = False"
| "authored_update R (Set_sub_cause_text v) = False"
| "authored_update R (Set_box_2d v) = False"

definition cause_6_record :: IncidentData where
  "cause_6_record =
     \<lparr>incident = 1, message_type = ''DENM'', cause_code = Some 6, sub_cause_code = None,
      cause_text = Some ''adverseWeatherCondition-adhesion'', sub_cause_text = None,
      box_2d = [(0, 0, 0, 0, 0), (1, 0, 0, 0, 0)], description = []\<rparr>"

section \<open>Properties\<close>

subsection \<open>The state updater and the record\<close>

text \<open>
  \<open>updateField\<close> replaces the record of the selected item by \<open>updateParsed\<close> of it and
  leaves the state as it is when the index selects no record. The properties of the
  derivation engine below are stated on \<open>updateParsed\<close>.
\<close>

lemma updateField_selected:
  assumes "selected_parsed sel prev = Some p"
  shows "selected_parsed sel (updateField sel u prev) = Some (updateParsed u p)"
  using assms by (auto simp: updateField_def selected_parsed_def split: if_splits)

lemma updateField_no_record:
  "selected_parsed sel prev = None \<Longrightarrow> updateField sel u prev = prev"
  by (auto simp: updateField_def selected_parsed_def split: if_splits)

lemma updateField_length: "length (updateField sel u prev) = length prev"
  by (simp add: updateField_def split: option.splits)

subsection \<open>Cause and sub-cause\<close>

lemma String_num_5: "String_num 5 = ''5''"
  by (simp add: String_num_def String_nat.simps digit_char_def)

lemma String_num_6: "String_num 6 = ''6''"
  by (simp add: String_num_def String_nat.simps digit_char_def)

lemma causeCodes_6:
  "map_of DENM_causeCodes ''6'' =
     Some \<lparr>name = ''adverseWeatherCondition-adhesion'',
        subCauseCodes = [(''0'', ''slippery road (generic)''),
                         (''2'', ''fuel on road''),
                         (''3'', ''mud on road''),
                         (''5'', ''ice on road''),
                         (''6'', ''black ice on road''),
                         (''7'', ''oil on road''),
                         (''8'', ''loose chippings'')]\<rparr>"
  by (simp add: DENM_causeCodes_def)

text \<open>
  C8. Cause/sub-cause coupling. For every record \<open>R\<close> (the incident flag plays no part),
  selecting cause code 6 stores the code with the table's name for it and sets the
  sub-cause code and text to null; selecting sub-cause code 5 afterwards sets the
  sub-cause text to "ice on road".
\<close>

theorem cause_sub_cause_coupling:
  "sub_cause_code (updateParsed (Set_cause_code (Some 6)) R) = None
   \<and> sub_cause_text (updateParsed (Set_cause_code (Some 6)) R) = None
   \<and> cause_code (updateParsed (Set_cause_code (Some 6)) R) = Some 6
   \<and> cause_text (updateParsed (Set_cause_code (Some 6)) R) = Some ''adverseWeatherCondition-adhesion''
   \<and> sub_cause_code (updateParsed (Set_sub_cause_code (Some 5))
        (updateParsed (Set_cause_code (Some 6)) R)) = Some 5
   \<and> sub_cause_text (updateParsed (Set_sub_cause_code (Some 5))
        (updateParsed (Set_cause_code (Some 6)) R)) = Some ''ice on road''"
  by (simp add: String_code_def String_num_5 String_num_6 causeCodes_6 text_or_null_def)

text \<open>
  C2. Incident toggle derivation. For every record, setting the incident flag to 1 sets
  the message type to "DENM" and keeps \<open>box_2d\<close> when it has length 2, else replaces it
  by the two default boxes \<open>[0,0,0,0,0]\<close> and \<open>[1,0,0,0,0]\<close>; setting the flag to 0 sets
  the message type to "none", the cause code, sub-cause code and both texts to null and
  \<open>box_2d\<close> to the empty list.
\<close>

theorem incident_toggle_derivation:
  "incident (updateParsed (Set_incident 1) R) = 1
   \<and> message_type (updateParsed (Set_incident 1) R) = ''DENM''
   \<and> box_2d (updateParsed (Set_incident 1) R) =
       (if length (box_2d R) = 2 then box_2d R else [(0, 0, 0, 0, 0), (1, 0, 0, 0, 0)])
   \<and> incident (updateParsed (Set_incident 0) R) = 0
   \<and> message_type (updateParsed (Set_incident 0) R) = ''none''
   \<and> cause_code (updateParsed (Set_incident 0) R) = None
   \<and> sub_cause_code (updateParsed (Set_incident 0) R) = None
   \<and> cause_text (updateParsed (Set_incident 0) R) = None
   \<and> sub_cause_text (updateParsed (Set_incident 0) R) = None
   \<and> box_2d (updateParsed (Set_incident 0) R) = []"
  by simp

subsection \<open>Sub-cause code 0\<close>

lemma String_code_0: "String_code (Some 0) = ''0''"
  by (simp add: String_code_def String_num_def String_nat.simps digit_char_def)

lemma zero_is_a_sub_cause_key:
  "list_all (\<lambda>k. ''0'' \<in> set (sub_cause_keys k))
     [''6'', ''9'', ''10'', ''11'', ''12'', ''14'', ''15'', ''18'']"
  by (simp add: sub_cause_keys_def DENM_causeCodes_def)

lemma updateParsed_keeps_nonzero:
  "sub_cause_code R \<noteq> Some 0 \<Longrightarrow> sub_cause_code (updateParsed u R) \<noteq> Some 0"
  by (cases u) (auto split: option.splits)

text \<open>
  C10. The value 0 is the unset sentinel of the sub-cause code. For every record,
  selecting sub-cause code 0 sets the sub-cause code and text to null, although "0"
  (the key \<^verbatim>\<open>String(0)\<close>) is a key of the sub-cause tables of the causes 6, 9, 10, 11,
  12, 14, 15 and 18. So the engine never stores sub-cause code 0: no sub-cause update
  yields it, and no update at all yields it from a record that does not hold it.
\<close>

theorem sub_cause_zero_is_unset:
  "sub_cause_code (updateParsed (Set_sub_cause_code (Some 0)) R) = None
   \<and> sub_cause_text (updateParsed (Set_sub_cause_code (Some 0)) R) = None
   \<and> String_code (Some 0) = ''0''
   \<and> list_all (\<lambda>k. ''0'' \<in> set (sub_cause_keys k))
        [''6'', ''9'', ''10'', ''11'', ''12'', ''14'', ''15'', ''18'']
   \<and> (\<forall>v. sub_cause_code (updateParsed (Set_sub_cause_code v) R) \<noteq> Some 0)
   \<and> (\<forall>u. sub_cause_code R \<noteq> Some 0 \<longrightarrow> sub_cause_code (updateParsed u R) \<noteq> Some 0)"
proof -
  have "sub_cause_code (updateParsed (Set_sub_cause_code v) R) \<noteq> Some 0" for v
    by (auto split: option.splits)
  then show ?thesis
    using String_code_0 zero_is_a_sub_cause_key updateParsed_keeps_nonzero by simp
qed

theorem sub_cause_zero_is_unset_witness:
  "sub_cause_code (updateParsed (Set_cause_code (Some 6)) default_record) \<noteq> Some 0
   \<and> sub_cause_code (updateParsed (Set_sub_cause_code (Some 0))
        (updateParsed (Set_cause_code (Some 6)) default_record)) = None
   \<and> sub_cause_code (updateParsed (Set_sub_cause_code (Some 0))
        (updateParsed (Set_cause_code (Some 6)) default_record)) \<noteq> Some 0"
  using sub_cause_zero_is_unset [of "updateParsed (Set_cause_code (Some 6)) default_record"]
  by simp

subsection \<open>The guard of the box sink\<close>

lemma updateBox_no_record:
  "selected_parsed sel prev = None \<Longrightarrow> updateBox sel idx newBox prev = prev"
  by (auto simp: updateBox_def selected_parsed_def split: if_splits)

text \<open>
  C9. The box update is guarded. When the selected record has an incident flag other
  than 1, or a \<open>box_2d\<close> that does not have exactly two entries, \<open>updateBox\<close> returns the
  dataset state it was given, whatever the index and the box.
\<close>

theorem updateBox_guarded:
  assumes "selected_parsed sel prev = Some p"
      and "incident p \<noteq> 1 \<or> length (box_2d p) \<noteq> 2"
  shows "updateBox sel idx newBox prev = prev"
  using assms by (auto simp: updateBox_def selected_parsed_def split: if_splits)

theorem updateBox_guarded_witness:
  "selected_parsed 0 [item_of default_record] = Some default_record
   \<and> incident default_record \<noteq> 1
   \<and> updateBox 0 K1 (1 / 2, 10, 20, 30, 40) [item_of default_record] = [item_of default_record]"
proof -
  have h1: "selected_parsed 0 [item_of default_record] = Some default_record"
    by (simp add: selected_parsed_def item_of_def)
  have h2: "incident default_record \<noteq> 1 \<or> length (box_2d default_record) \<noteq> 2"
    by (simp add: default_record_def)
  show ?thesis
    using updateBox_guarded [OF h1 h2, of K1 "(1 / 2, 10, 20, 30, 40)"] h1
    by (simp add: default_record_def)
qed

subsection \<open>What the box sink stores\<close>

lemma keyframe_index_less: "keyframe_index idx < 2"
  by (cases idx) simp_all

lemma selected_parsed_updateBox:
  assumes "selected_parsed sel prev = Some p" and "incident p = 1" and "length (box_2d p) = 2"
  shows "selected_parsed sel (updateBox sel idx newBox prev) =
           Some (p\<lparr>box_2d := (box_2d p)[keyframe_index idx := clamped newBox]\<rparr>)"
  using assms by (auto simp: updateBox_def selected_parsed_def split: if_splits)

lemma stored_box_updateBox:
  assumes "selected_parsed sel prev = Some p" and "incident p = 1" and "length (box_2d p) = 2"
  shows "selected_boxes sel (updateBox sel idx newBox prev) ! keyframe_index idx = clamped newBox"
  using assms keyframe_index_less [of idx]
  by (simp add: selected_boxes_def selected_parsed_updateBox)

lemma Math_round_clamp: "coord_valid (Math_round (max 0 (min 1000 x)))"
proof -
  have "0 \<le> max 0 (min 1000 x)" "max 0 (min 1000 x) \<le> 1000" by simp_all
  then show ?thesis
    unfolding coord_valid_def is_integer_def Math_round_def
    by (auto simp: le_floor_iff floor_le_iff)
qed

lemma clamped_valid: "box_coords_valid (clamped b)"
  by (cases b) (simp add: Math_round_clamp)

lemma clamped_time: "fst (clamped b) = fst b"
  by (cases b) simp

lemma Math_round_mono: "x \<le> y \<Longrightarrow> Math_round x \<le> Math_round y"
  unfolding Math_round_def by (simp add: floor_mono)

lemma clamped_ordered: "box_ordered b \<Longrightarrow> box_ordered (clamped b)"
  by (cases b) (auto intro!: Math_round_mono simp: max.coboundedI2 min.coboundedI2)

lemma example_selected:
  "selected_parsed 0 [item_of (incident_record b0 b1)] = Some (incident_record b0 b1)"
  by (simp add: selected_parsed_def item_of_def)

lemma example_guard:
  "incident (incident_record b0 b1) = 1" "length (box_2d (incident_record b0 b1)) = 2"
  by (simp_all add: incident_record_def)

text \<open>
  The coordinates. After every mutation of a keyframe box through \<open>updateBox\<close> (the
  selected record has incident flag 1 and two boxes, else nothing is mutated), the four
  stored coordinates are integers in \<open>[0,1000]\<close>: an input out of range is clamped,
  never rejected.
\<close>

lemma updateBox_coordinates_valid:
  assumes "selected_parsed sel prev = Some p" and "incident p = 1" and "length (box_2d p) = 2"
  shows "selected_boxes sel (updateBox sel idx newBox prev) ! keyframe_index idx = clamped newBox
    \<and> box_coords_valid (selected_boxes sel (updateBox sel idx newBox prev) ! keyframe_index idx)"
  using stored_box_updateBox [OF assms] by (simp add: clamped_valid)

lemma updateBox_coordinates_valid_example:
  "selected_boxes 0
        (updateBox 0 K1 (3 / 4, - 7, 2469 / 2, 21 / 2, 40)
           [item_of (incident_record (0, 0, 0, 0, 0) (1, 0, 0, 0, 0))]) ! keyframe_index K1
       = (3 / 4, 0, 1000, 11, 40)
   \<and> box_coords_valid (selected_boxes 0
        (updateBox 0 K1 (3 / 4, - 7, 2469 / 2, 21 / 2, 40)
           [item_of (incident_record (0, 0, 0, 0, 0) (1, 0, 0, 0, 0))]) ! keyframe_index K1)"
proof -
  have h1: "selected_parsed 0 [item_of (incident_record (0, 0, 0, 0, 0) (1, 0, 0, 0, 0))]
              = Some (incident_record (0, 0, 0, 0, 0) (1, 0, 0, 0, 0))"
    by (rule example_selected)
  have h2: "incident (incident_record (0, 0, 0, 0, 0) (1, 0, 0, 0, 0)) = 1"
    by (rule example_guard)
  have h3: "length (box_2d (incident_record (0, 0, 0, 0, 0) (1, 0, 0, 0, 0))) = 2"
    by (rule example_guard)
  show ?thesis
    using updateBox_coordinates_valid [OF h1 h2 h3, of K1 "(3 / 4, - 7, 2469 / 2, 21 / 2, 40)"]
    by (simp add: Math_round_def coord_valid_def is_integer_def)
qed

text \<open>
  C3 fails on the time. The box type is documented as "Normalized t 0-1", the export
  prompt promises a time normalized to 0-1 and the time input declares the bounds 0 and
  \<open>duration\<close>, yet \<open>updateBox\<close> clamps the four coordinates only and copies the time:
  typing 50 into the time input on a clip of 10 seconds stores the time 5, outside
  \<open>[0,1]\<close>.
\<close>

theorem timeChange_stores_time_out_of_range:
  "selected_boxes 0
     (timeChange 0 K0 50 10
        [item_of (incident_record (0, 100, 100, 200, 200) (1, 0, 0, 0, 0))]) ! 0
     = (5, 100, 100, 200, 200)
   \<and> \<not> box_time_valid (selected_boxes 0
     (timeChange 0 K0 50 10
        [item_of (incident_record (0, 100, 100, 200, 200) (1, 0, 0, 0, 0))]) ! 0)"
  by (simp add: timeChange_def selected_boxes_def selected_parsed_def updateBox_def
      item_of_def incident_record_def Math_round_def)

subsection \<open>The ordering of the stored box\<close>

lemma clampedBox_ordered: "box_ordered (clampedBox t q)"
  by (cases q) auto

lemma handleMove_ordered: "handleMove ds e = Some b \<Longrightarrow> box_ordered b"
  by (auto simp: handleMove_def Let_def clampedBox_ordered split: if_splits)

lemma dragMove_ignored: "handleMove ds e = None \<Longrightarrow> dragMove sel kf ds e data = data"
  by (simp add: dragMove_def)

lemma dragMove_stored:
  assumes "selected_parsed sel data = Some p" and "incident p = 1" and "length (box_2d p) = 2"
      and "handleMove ds e = Some b"
  shows "selected_boxes sel (dragMove sel kf ds e data) ! keyframe_index kf = clamped b"
  using assms by (simp add: dragMove_def stored_box_updateBox)

text \<open>
  The drag path (move, resize and draw) reconciles an inverted candidate by swapping, and
  the rounding of the sink keeps the order: the box a drag stores is ordered.
\<close>

lemma dragMove_ordered:
  assumes "selected_parsed sel data = Some p" and "incident p = 1" and "length (box_2d p) = 2"
      and "handleMove ds e = Some b"
  shows "box_ordered (selected_boxes sel (dragMove sel kf ds e data) ! keyframe_index kf)"
  using dragMove_stored [OF assms] handleMove_ordered [OF assms(4)]
  by (simp add: clamped_ordered)

text \<open>
  C4 fails on the direct coordinate edits. The coordinate control hands the edited copy
  to \<open>updateBox\<close>, which clamps and rounds and does not reorder: on the box
  \<open>(0, 100, 100, 200, 200)\<close>, setting Y-Min to 500 stores \<open>(0, 500, 100, 200, 200)\<close>,
  with \<open>yMin > yMax\<close>.
\<close>

theorem coordChange_stores_inverted_box:
  "selected_boxes 0
     (coordChange 0 K0 Y_Min 500
        [item_of (incident_record (0, 100, 100, 200, 200) (1, 0, 0, 0, 0))]) ! 0
     = (0, 500, 100, 200, 200)
   \<and> \<not> box_ordered (selected_boxes 0
     (coordChange 0 K0 Y_Min 500
        [item_of (incident_record (0, 100, 100, 200, 200) (1, 0, 0, 0, 0))]) ! 0)"
  by (simp add: coordChange_def selected_boxes_def selected_parsed_def updateBox_def
      item_of_def incident_record_def Math_round_def)

subsection \<open>The draw and move gestures\<close>

lemma sqrt_225: "sqrt 225 = 15"
proof -
  have "sqrt 225 = sqrt (15\<^sup>2)" by simp
  also have "\<dots> = 15" by (simp del: real_sqrt_four)
  finally show ?thesis .
qed

lemma sqrt_less_15: "sqrt x < 15 \<longleftrightarrow> x < 225"
  using real_sqrt_less_iff [of x 225] by (simp add: sqrt_225)

lemma sqrt_ge_15: "15 \<le> sqrt x \<longleftrightarrow> 225 \<le> x"
  using sqrt_less_15 [of x] by (simp add: not_less [symmetric])

lemma draw_below_threshold:
  "mode ds = Mode_draw \<Longrightarrow> travel ds e < 15 \<Longrightarrow> handleMove ds e = None"
  by (simp add: handleMove_def travel_def Let_def)

lemma draw_from_threshold:
  assumes "mode ds = Mode_draw" and "15 \<le> travel ds e"
      and "width (rect ds) \<noteq> 0" and "height (rect ds) \<noteq> 0"
  shows "handleMove ds e =
     Some (fst (startBox ds),
       max 0 (min 1000 (min (normalize (startY ds - top' (rect ds)) (height (rect ds)))
                            (normalize (clientY e - top' (rect ds)) (height (rect ds))))),
       max 0 (min 1000 (min (normalize (startX ds - left (rect ds)) (width (rect ds)))
                            (normalize (clientX e - left (rect ds)) (width (rect ds))))),
       max 0 (min 1000 (max (normalize (startY ds - top' (rect ds)) (height (rect ds)))
                            (normalize (clientY e - top' (rect ds)) (height (rect ds))))),
       max 0 (min 1000 (max (normalize (startX ds - left (rect ds)) (width (rect ds)))
                            (normalize (clientX e - left (rect ds)) (width (rect ds))))))"
  using assms by (simp add: handleMove_def travel_def Let_def not_less [symmetric])

lemma draw_scenario_handler:
  assumes "width r = 800" and "height r = 600"
  shows "handleMove (startDrag Mode_draw \<lparr>clientX = left r + 100, clientY = top' r + 100\<rparr> boxData kf r)
           \<lparr>clientX = left r + 500, clientY = top' r + 400\<rparr>
         = Some (fst (boxData ! keyframe_index kf), 500 / 3, 125, 2000 / 3, 625)"
  using assms by (simp add: handleMove_def startDrag_def sqrt_less_15 normalize_def)

lemma draw_scenario_stored:
  assumes "selected_parsed sel data = Some p" and "incident p = 1" and "length (box_2d p) = 2"
      and "width r = 800" and "height r = 600"
  shows "selected_boxes sel
           (dragMove sel kf
              (startDrag Mode_draw \<lparr>clientX = left r + 100, clientY = top' r + 100\<rparr> (box_2d p) kf r)
              \<lparr>clientX = left r + 500, clientY = top' r + 400\<rparr> data) ! keyframe_index kf
         = (fst (box_2d p ! keyframe_index kf), 167, 125, 667, 625)"
  using dragMove_stored [OF assms(1-3) draw_scenario_handler [OF assms(4,5)]]
  by (simp add: Math_round_def)

text \<open>
  C6, as the code has it. In draw mode the box comes directly from the rectangle that
  spans the drag origin and the pointer, through the captured container rectangle (not
  incrementally: of the captured box only the time is used, and it is carried through
  unchanged). The gesture is ignored while the pointer travel is below 15 pixels; at 15
  pixels and beyond it draws. In a container of 800 by 600 pixels a drag from
  \<open>(100,100)\<close> to \<open>(500,400)\<close>, relative to the container, stores the box
  \<open>(t, 167, 125, 667, 625)\<close> with \<open>t\<close> the time of the box before the gesture.
\<close>

theorem draw_gesture_geometry:
  "(mode ds = Mode_draw \<and> travel ds e < 15 \<longrightarrow>
      handleMove ds e = None \<and> dragMove sel kf ds e data = data)
   \<and> (mode dsa = Mode_draw \<and> 15 \<le> travel dsa ea
        \<and> width (rect dsa) \<noteq> 0 \<and> height (rect dsa) \<noteq> 0 \<longrightarrow>
      handleMove dsa ea =
        Some (fst (startBox dsa),
          max 0 (min 1000 (min (normalize (startY dsa - top' (rect dsa)) (height (rect dsa)))
                               (normalize (clientY ea - top' (rect dsa)) (height (rect dsa))))),
          max 0 (min 1000 (min (normalize (startX dsa - left (rect dsa)) (width (rect dsa)))
                               (normalize (clientX ea - left (rect dsa)) (width (rect dsa))))),
          max 0 (min 1000 (max (normalize (startY dsa - top' (rect dsa)) (height (rect dsa)))
                               (normalize (clientY ea - top' (rect dsa)) (height (rect dsa))))),
          max 0 (min 1000 (max (normalize (startX dsa - left (rect dsa)) (width (rect dsa)))
                               (normalize (clientX ea - left (rect dsa)) (width (rect dsa)))))))
   \<and> (selected_parsed sel data = Some p \<and> incident p = 1 \<and> length (box_2d p) = 2
        \<and> width r = 800 \<and> height r = 600 \<longrightarrow>
      selected_boxes sel
        (dragMove sel kf
           (startDrag Mode_draw \<lparr>clientX = left r + 100, clientY = top' r + 100\<rparr> (box_2d p) kf r)
           \<lparr>clientX = left r + 500, clientY = top' r + 400\<rparr> data) ! keyframe_index kf
        = (fst (box_2d p ! keyframe_index kf), 167, 125, 667, 625))"
  using draw_below_threshold [of ds e] dragMove_ignored [of ds e sel kf data]
    draw_from_threshold [of dsa ea] draw_scenario_stored [of sel data p r kf]
  by blast

theorem draw_gesture_geometry_witness:
  "travel (startDrag Mode_draw \<lparr>clientX = 100, clientY = 100\<rparr> [(0, 0, 0, 0, 0), (1, 0, 0, 0, 0)] K0
             \<lparr>left = 0, top' = 0, width = 800, height = 600\<rparr>)
          \<lparr>clientX = 103, clientY = 104\<rparr> < 15
   \<and> dragMove 0 K0
        (startDrag Mode_draw \<lparr>clientX = 100, clientY = 100\<rparr> [(0, 0, 0, 0, 0), (1, 0, 0, 0, 0)] K0
             \<lparr>left = 0, top' = 0, width = 800, height = 600\<rparr>)
        \<lparr>clientX = 103, clientY = 104\<rparr>
        [item_of (incident_record (0, 0, 0, 0, 0) (1, 0, 0, 0, 0))]
      = [item_of (incident_record (0, 0, 0, 0, 0) (1, 0, 0, 0, 0))]
   \<and> 15 \<le> travel (startDrag Mode_draw \<lparr>clientX = 100, clientY = 100\<rparr> [(0, 0, 0, 0, 0), (1, 0, 0, 0, 0)] K0
             \<lparr>left = 0, top' = 0, width = 800, height = 600\<rparr>)
          \<lparr>clientX = 500, clientY = 400\<rparr>
   \<and> handleMove (startDrag Mode_draw \<lparr>clientX = 100, clientY = 100\<rparr> [(0, 0, 0, 0, 0), (1, 0, 0, 0, 0)] K0
             \<lparr>left = 0, top' = 0, width = 800, height = 600\<rparr>)
          \<lparr>clientX = 500, clientY = 400\<rparr> = Some (0, 500 / 3, 125, 2000 / 3, 625)
   \<and> selected_boxes 0
        (dragMove 0 K0
          (startDrag Mode_draw \<lparr>clientX = 100, clientY = 100\<rparr> [(0, 0, 0, 0, 0), (1, 0, 0, 0, 0)] K0
             \<lparr>left = 0, top' = 0, width = 800, height = 600\<rparr>)
          \<lparr>clientX = 500, clientY = 400\<rparr>
          [item_of (incident_record (0, 0, 0, 0, 0) (1, 0, 0, 0, 0))]) ! keyframe_index K0
      = (0, 167, 125, 667, 625)"
  using draw_gesture_geometry [where
      ds = "startDrag Mode_draw \<lparr>clientX = 100, clientY = 100\<rparr> [(0, 0, 0, 0, 0), (1, 0, 0, 0, 0)] K0
             \<lparr>left = 0, top' = 0, width = 800, height = 600\<rparr>"
      and e = "\<lparr>clientX = 103, clientY = 104\<rparr>"
      and dsa = "startDrag Mode_draw \<lparr>clientX = 100, clientY = 100\<rparr> [(0, 0, 0, 0, 0), (1, 0, 0, 0, 0)] K0
             \<lparr>left = 0, top' = 0, width = 800, height = 600\<rparr>"
      and ea = "\<lparr>clientX = 500, clientY = 400\<rparr>"
      and sel = 0 and kf = K0
      and data = "[item_of (incident_record (0, 0, 0, 0, 0) (1, 0, 0, 0, 0))]"
      and p = "incident_record (0, 0, 0, 0, 0) (1, 0, 0, 0, 0)"
      and r = "\<lparr>left = 0, top' = 0, width = 800, height = 600\<rparr>"]
    example_selected [of "(0, 0, 0, 0, 0)" "(1, 0, 0, 0, 0)"]
    example_guard [of "(0, 0, 0, 0, 0)" "(1, 0, 0, 0, 0)"]
  by (simp add: travel_def startDrag_def sqrt_less_15 sqrt_ge_15 normalize_def incident_record_def)

text \<open>
  The claim C6 as stated fails at the threshold: a travel of exactly 15 pixels (9 across,
  12 down) does not exceed 15 pixels, and the gesture already redraws the box.
\<close>

theorem draw_threshold_counterexample:
  "travel (startDrag Mode_draw \<lparr>clientX = 100, clientY = 100\<rparr> [(0, 0, 0, 0, 0), (1, 0, 0, 0, 0)] K0
             \<lparr>left = 0, top' = 0, width = 800, height = 600\<rparr>)
          \<lparr>clientX = 109, clientY = 112\<rparr> = 15
   \<and> selected_boxes 0
        (dragMove 0 K0
          (startDrag Mode_draw \<lparr>clientX = 100, clientY = 100\<rparr> [(0, 0, 0, 0, 0), (1, 0, 0, 0, 0)] K0
             \<lparr>left = 0, top' = 0, width = 800, height = 600\<rparr>)
          \<lparr>clientX = 109, clientY = 112\<rparr>
          [item_of (incident_record (0, 0, 0, 0, 0) (1, 0, 0, 0, 0))])
      = [(0, 167, 125, 187, 136), (1, 0, 0, 0, 0)]
   \<and> dragMove 0 K0
          (startDrag Mode_draw \<lparr>clientX = 100, clientY = 100\<rparr> [(0, 0, 0, 0, 0), (1, 0, 0, 0, 0)] K0
             \<lparr>left = 0, top' = 0, width = 800, height = 600\<rparr>)
          \<lparr>clientX = 109, clientY = 112\<rparr>
          [item_of (incident_record (0, 0, 0, 0, 0) (1, 0, 0, 0, 0))]
      \<noteq> [item_of (incident_record (0, 0, 0, 0, 0) (1, 0, 0, 0, 0))]"
  by (simp add: travel_def startDrag_def sqrt_225 sqrt_less_15 normalize_def dragMove_def
      handleMove_def updateBox_def selected_boxes_def selected_parsed_def item_of_def
      incident_record_def Math_round_def)

text \<open>
  C7, as the code has it. From the box \<open>(0.1, 0, 0, 100, 100)\<close>, a move with no vertical
  movement whose normalized horizontal delta is at most \<open>-100\<close> (so also \<open>-2000\<close>) stores
  \<open>(0.1, 0, 0, 100, 0)\<close>: each coordinate is clamped on its own, \<open>xMin\<close> stays 0 with no
  negative drift, and \<open>xMax\<close> is clamped to 0 as well, so the box loses its width.
\<close>

theorem move_clamp_collapses:
  assumes "selected_parsed sel data = Some p" and "incident p = 1" and "length (box_2d p) = 2"
      and "box_2d p ! keyframe_index kf = (1 / 10, 0, 0, 100, 100)"
      and "width r \<noteq> 0" and "height r \<noteq> 0"
      and "(clientX e - clientX e0) / width r * 1000 \<le> - 100" and "clientY e = clientY e0"
  shows "selected_boxes sel
           (dragMove sel kf (startDrag Mode_move e0 (box_2d p) kf r) e data) ! keyframe_index kf
         = (1 / 10, 0, 0, 100, 0)"
proof -
  have "handleMove (startDrag Mode_move e0 (box_2d p) kf r) e = Some (1 / 10, 0, 0, 100, 0)"
    using assms(4-8) by (simp add: handleMove_def startDrag_def Let_def)
  from dragMove_stored [OF assms(1-3) this] show ?thesis
    by (simp add: Math_round_def)
qed

theorem move_clamp_collapses_witness:
  "(clientX \<lparr>clientX = 500, clientY = 50\<rparr> - clientX \<lparr>clientX = 2500, clientY = 50\<rparr>)
      / width \<lparr>left = 0, top' = 0, width = 1000, height = 1000\<rparr> * 1000 = - 2000
   \<and> selected_boxes 0
     (dragMove 0 K0
        (startDrag Mode_move \<lparr>clientX = 2500, clientY = 50\<rparr>
           (box_2d (incident_record (1 / 10, 0, 0, 100, 100) (1, 0, 0, 0, 0))) K0
           \<lparr>left = 0, top' = 0, width = 1000, height = 1000\<rparr>)
        \<lparr>clientX = 500, clientY = 50\<rparr>
        [item_of (incident_record (1 / 10, 0, 0, 100, 100) (1, 0, 0, 0, 0))]) ! keyframe_index K0
     = (1 / 10, 0, 0, 100, 0)"
proof -
  have h1: "selected_parsed 0 [item_of (incident_record (1 / 10, 0, 0, 100, 100) (1, 0, 0, 0, 0))]
              = Some (incident_record (1 / 10, 0, 0, 100, 100) (1, 0, 0, 0, 0))"
    by (rule example_selected)
  have h2: "incident (incident_record (1 / 10, 0, 0, 100, 100) (1, 0, 0, 0, 0)) = 1"
    by (rule example_guard)
  have h3: "length (box_2d (incident_record (1 / 10, 0, 0, 100, 100) (1, 0, 0, 0, 0))) = 2"
    by (rule example_guard)
  have h4: "box_2d (incident_record (1 / 10, 0, 0, 100, 100) (1, 0, 0, 0, 0)) ! keyframe_index K0
              = (1 / 10, 0, 0, 100, 100)"
    by (simp add: incident_record_def)
  have h5: "width \<lparr>left = 0, top' = 0, width = 1000, height = 1000\<rparr> \<noteq> 0"
    by simp
  have h6: "height \<lparr>left = 0, top' = 0, width = 1000, height = 1000\<rparr> \<noteq> 0"
    by simp
  have h7: "(clientX \<lparr>clientX = 500, clientY = 50\<rparr> - clientX \<lparr>clientX = 2500, clientY = 50\<rparr>)
              / width \<lparr>left = 0, top' = 0, width = 1000, height = 1000\<rparr> * 1000 \<le> - 100"
    by simp
  have h8: "clientY \<lparr>clientX = 500, clientY = 50\<rparr> = clientY \<lparr>clientX = 2500, clientY = 50\<rparr>"
    by simp
  show ?thesis
    using move_clamp_collapses [OF h1 h2 h3 h4 h5 h6 h7 h8] by simp
qed

text \<open>
  The claim C7 as stated fails: with a normalized delta of \<open>-2000\<close> the stored box is not
  \<open>(0.1, 0, 0, 100, 100)\<close>.
\<close>

theorem move_clamp_counterexample:
  "selected_boxes 0
     (dragMove 0 K0
        (startDrag Mode_move \<lparr>clientX = 2500, clientY = 50\<rparr>
           [(1 / 10, 0, 0, 100, 100), (1, 0, 0, 0, 0)] K0
           \<lparr>left = 0, top' = 0, width = 1000, height = 1000\<rparr>)
        \<lparr>clientX = 500, clientY = 50\<rparr>
        [item_of (incident_record (1 / 10, 0, 0, 100, 100) (1, 0, 0, 0, 0))]) ! 0
     = (1 / 10, 0, 0, 100, 0)
   \<and> selected_boxes 0
     (dragMove 0 K0
        (startDrag Mode_move \<lparr>clientX = 2500, clientY = 50\<rparr>
           [(1 / 10, 0, 0, 100, 100), (1, 0, 0, 0, 0)] K0
           \<lparr>left = 0, top' = 0, width = 1000, height = 1000\<rparr>)
        \<lparr>clientX = 500, clientY = 50\<rparr>
        [item_of (incident_record (1 / 10, 0, 0, 100, 100) (1, 0, 0, 0, 0))]) ! 0
     \<noteq> (1 / 10, 0, 0, 100, 100)"
  by (simp add: startDrag_def dragMove_def
      handleMove_def updateBox_def selected_boxes_def selected_parsed_def item_of_def
      incident_record_def Math_round_def)

subsection \<open>Closure of the invariants\<close>

lemma default_boxes_valid:
  "list_all (\<lambda>b. box_coords_valid b \<and> box_time_valid b) [(0, 0, 0, 0, 0), (1, 0, 0, 0, 0)]"
  by (simp add: coord_valid_def is_integer_def)

lemma inv_incident:
  assumes "invariants R" shows "invariants (updateParsed (Set_incident v) R)"
  using assms default_boxes_valid
  by (auto simp: invariants_def invariant_1_def invariant_2_def invariant_3_def invariant_4_def
      split: option.splits)

lemma inv_cause:
  assumes "invariants R" and "authored_update R (Set_cause_code v)"
  shows "invariants (updateParsed (Set_cause_code v) R)"
  using assms
  by (auto simp: invariants_def invariant_1_def invariant_2_def invariant_3_def invariant_4_def
      split: option.splits)

lemma inv_sub_cause:
  assumes "invariants R" and "authored_update R (Set_sub_cause_code v)"
  shows "invariants (updateParsed (Set_sub_cause_code v) R)"
  using assms
  by (auto simp: invariants_def invariant_1_def invariant_2_def invariant_3_def invariant_4_def
      split: option.splits)

lemma inv_description:
  assumes "invariants R" shows "invariants (updateParsed (Set_description v) R)"
  using assms
  by (auto simp: invariants_def invariant_1_def invariant_2_def invariant_3_def invariant_4_def
      split: option.splits)

text \<open>
  C1, as the code has it. For every record that satisfies the invariants and every
  update of an authored field (see \<open>authored_update\<close>), the record \<open>updateField\<close>
  returns satisfies the invariants.
\<close>

theorem updateField_invariant_closure:
  assumes "invariants R" and "authored_update R u"
  shows "invariants (updateParsed u R)"
  using assms inv_incident inv_cause inv_sub_cause inv_description
  by (cases u) simp_all

lemma String_num_4: "String_num 4 = ''4''"
  by (simp add: String_num_def String_nat.simps digit_char_def)

lemma sub_cause_keys_6: "sub_cause_keys ''6'' = [''0'', ''2'', ''3'', ''5'', ''6'', ''7'', ''8'']"
  by (simp add: sub_cause_keys_def causeCodes_6)

lemma invariants_cause_6_record: "invariants cause_6_record"
  by (simp add: invariants_def invariant_1_def invariant_2_def invariant_3_def invariant_4_def
      cause_6_record_def coord_valid_def is_integer_def)

lemma invariants_default_record: "invariants default_record"
  by (simp add: invariants_def invariant_1_def invariant_2_def invariant_3_def invariant_4_def
      default_record_def)

text \<open>
  The claim C1 as stated fails: the engine stores any value under any key. With cause 6
  selected, sub-cause code 4 (no key of that cause's table) is stored, with a null text,
  against invariant 3; a cause code is stored on a record whose flag is 0, against
  invariant 1; and a direct write of the message type, of a text or of the boxes breaks
  invariants 1 and 2.
\<close>

theorem invariant_closure_counterexample:
  "invariants cause_6_record
   \<and> sub_cause_code (updateParsed (Set_sub_cause_code (Some 4)) cause_6_record) = Some 4
   \<and> \<not> invariant_3 (updateParsed (Set_sub_cause_code (Some 4)) cause_6_record)
   \<and> \<not> invariants (updateParsed (Set_sub_cause_code (Some 4)) cause_6_record)
   \<and> invariants default_record
   \<and> \<not> invariants (updateParsed (Set_cause_code (Some 6)) default_record)
   \<and> \<not> invariants (updateParsed (Set_message_type ''DENM'') default_record)
   \<and> \<not> invariants (updateParsed (Set_cause_text (Some ''accident'')) default_record)
   \<and> \<not> invariants (updateParsed (Set_sub_cause_text (Some ''unsecured accident'')) default_record)
   \<and> \<not> invariants (updateParsed (Set_box_2d []) cause_6_record)"
proof -
  have a: "invariant_3 (updateParsed (Set_sub_cause_code (Some 4)) cause_6_record) = False"
    by (simp add: invariant_3_def cause_6_record_def String_code_def String_num_6 String_num_4
        causeCodes_6 sub_cause_keys_6 text_or_null_def)
  have b: "sub_cause_code (updateParsed (Set_sub_cause_code (Some 4)) cause_6_record) = Some 4"
    by (simp add: cause_6_record_def String_code_def String_num_6 causeCodes_6)
  have c: "invariant_1 (updateParsed (Set_cause_code (Some 6)) default_record) = False"
    by (simp add: invariant_1_def default_record_def)
  have d: "invariant_1 (updateParsed (Set_message_type ''DENM'') default_record) = False"
    by (simp add: invariant_1_def default_record_def)
  have e: "invariant_2 (updateParsed (Set_box_2d []) cause_6_record) = False"
    by (simp add: invariant_2_def cause_6_record_def)
  have f: "invariant_1 (updateParsed (Set_cause_text (Some ''accident'')) default_record) = False"
    by (simp add: invariant_1_def default_record_def)
  have g: "invariant_1 (updateParsed (Set_sub_cause_text (Some ''unsecured accident'')) default_record) = False"
    by (simp add: invariant_1_def default_record_def)
  show ?thesis
    using a b c d e f g invariants_cause_6_record invariants_default_record
    by (simp add: invariants_def)
qed

theorem updateField_invariant_closure_witness:
  "invariants cause_6_record
   \<and> authored_update cause_6_record (Set_sub_cause_code (Some 5))
   \<and> invariants (updateParsed (Set_sub_cause_code (Some 5)) cause_6_record)"
proof -
  have h: "authored_update cause_6_record (Set_sub_cause_code (Some 5))"
    by (simp add: cause_6_record_def String_num_5 String_num_6 sub_cause_keys_6)
  show ?thesis
    using updateField_invariant_closure [OF invariants_cause_6_record h]
      invariants_cause_6_record h
    by simp
qed

subsection \<open>Export after import after export\<close>

lemma text_or_null_idem: "text_or_null (text_or_null s) = text_or_null s"
  by (simp add: text_or_null_def split: option.splits)

lemma code_or_null_idem: "code_or_null (code_or_null c) = code_or_null c"
  by (simp add: code_or_null_def split: option.splits)

lemma cleanParsed_idem: "cleanParsed (Some (cleanParsed q)) = cleanParsed q"
  by (cases q) (simp_all add: cleanParsed_def text_or_null_idem code_or_null_idem)

lemma replaceOrAppend_Cons:
  "replaceOrAppend j (x # xs) =
     (if isAssistant x then x\<lparr>value' := j\<rparr> # xs else x # replaceOrAppend j xs)"
  by (simp add: replaceOrAppend_def split: option.splits)

lemma replaceOrAppend_find:
  "\<exists>a. find isAssistant (replaceOrAppend j cs) = Some a \<and> value' a = j"
proof (induction cs)
  case Nil
  show ?case by (simp add: replaceOrAppend_def)
next
  case (Cons x xs)
  then show ?case by (simp add: replaceOrAppend_Cons)
qed

lemma replaceOrAppend_idem: "replaceOrAppend j (replaceOrAppend j cs) = replaceOrAppend j cs"
proof (induction cs)
  case Nil
  show ?case by (simp add: replaceOrAppend_def)
next
  case (Cons x xs)
  then show ?case by (simp add: replaceOrAppend_Cons)
qed

lemma replaceOrAppend_not_Nil: "replaceOrAppend j cs \<noteq> []"
proof (cases cs)
  case Nil
  then show ?thesis by (simp add: replaceOrAppend_def)
next
  case (Cons x xs)
  then show ?thesis by (simp add: replaceOrAppend_Cons)
qed

lemma withAssistant_find:
  "\<exists>a. find isAssistant (withAssistant prompt j convs) = Some a \<and> value' a = j"
  using replaceOrAppend_find [of j]
  by (simp add: withAssistant_def split: option.splits)

lemma withAssistant_idem:
  "withAssistant prompt j (Some (withAssistant prompt j convs)) = withAssistant prompt j convs"
proof -
  have "replaceOrAppend j [\<lparr>from' = ''human'', value' = prompt\<rparr>, \<lparr>from' = ''assistant'', value' = j\<rparr>]
          = [\<lparr>from' = ''human'', value' = prompt\<rparr>, \<lparr>from' = ''assistant'', value' = j\<rparr>]"
    by (simp add: replaceOrAppend_Cons)
  then show ?thesis
    using replaceOrAppend_not_Nil [of j]
    by (simp add: withAssistant_def replaceOrAppend_idem split: option.splits)
qed

lemma downloadItem_reimport:
  assumes "JSON_parse (JSON_stringify (cleanParsed (parsed item))) = Some (cleanParsed (parsed item))"
      and "JSON_stringify (cleanParsed (parsed item)) \<noteq> []"
  shows "downloadItem JSON_stringify prompt
           (processItem JSON_parse (downloadItem JSON_stringify prompt item))
         = downloadItem JSON_stringify prompt item"
proof -
  define clean where "clean = cleanParsed (parsed item)"
  define j where "j = JSON_stringify clean"
  define exported where "exported = downloadItem JSON_stringify prompt item"
  have ex: "exported = item\<lparr>conversations := Some (withAssistant prompt j (conversations item)),
                            type' := Some (type_of_clean clean), parsed := None\<rparr>"
    by (simp add: exported_def downloadItem_def Let_def clean_def j_def)
  obtain a where a: "find isAssistant (withAssistant prompt j (conversations item)) = Some a"
      and av: "value' a = j"
    using withAssistant_find by blast
  have "processItem JSON_parse exported = exported\<lparr>parsed := Some clean\<rparr>"
    using assms a av by (simp add: processItem_def ex clean_def j_def)
  moreover have "cleanParsed (Some clean) = clean"
    by (simp add: clean_def cleanParsed_idem)
  ultimately have "downloadItem JSON_stringify prompt (processItem JSON_parse exported) = exported"
    by (simp add: downloadItem_def Let_def ex withAssistant_idem j_def)
  then show ?thesis by (simp add: exported_def)
qed

text \<open>
  C5. Export is idempotent. The storage transform of a record is a fixed point of
  itself, \<open>cleanParsed (cleanParsed R) = cleanParsed R\<close>; and exporting a dataset,
  importing the exported items again and exporting once more gives the items of the
  first export, assistant strings and \<open>type\<close> labels included. The platform's
  \<^verbatim>\<open>JSON.parse\<close> is assumed to return the record \<^verbatim>\<open>JSON.stringify\<close> was given, and
  the written text not to be empty, on the records the export writes.
\<close>

theorem export_idempotent:
  assumes "\<forall>item \<in> set jsonData.
             JSON_parse (JSON_stringify (cleanParsed (parsed item))) = Some (cleanParsed (parsed item))
             \<and> JSON_stringify (cleanParsed (parsed item)) \<noteq> []"
  shows "downloadJson JSON_stringify prompt
           (processJsonFile JSON_parse (downloadJson JSON_stringify prompt jsonData))
         = downloadJson JSON_stringify prompt jsonData
    \<and> cleanParsed (Some (cleanParsed R)) = cleanParsed R
    \<and> type_of_clean (cleanParsed (Some (cleanParsed R))) = type_of_clean (cleanParsed R)"
  using assms
  by (simp add: downloadJson_def processJsonFile_def downloadItem_reimport cleanParsed_idem)

theorem export_idempotent_witness:
  "downloadJson (\<lambda>d. ''doc'') ''prompt''
     (processJsonFile (\<lambda>s. Some (cleanParsed (Some cause_6_record)))
        (downloadJson (\<lambda>d. ''doc'') ''prompt'' [item_of cause_6_record]))
   = downloadJson (\<lambda>d. ''doc'') ''prompt'' [item_of cause_6_record]
   \<and> downloadJson (\<lambda>d. ''doc'') ''prompt'' [item_of cause_6_record]
       = [\<lparr>id' = 0, video = ''clip.mp4'',
           conversations = Some [\<lparr>from' = ''human'', value' = ''prompt''\<rparr>,
                                 \<lparr>from' = ''assistant'', value' = ''doc''\<rparr>],
           parsed = None,
           type' = Some ''adverseweathercondition-adhesion''\<rparr>]"
proof -
  have h: "\<forall>item \<in> set [item_of cause_6_record].
             (\<lambda>s. Some (cleanParsed (Some cause_6_record))) ((\<lambda>d. ''doc'') (cleanParsed (parsed item)))
               = Some (cleanParsed (parsed item))
             \<and> (\<lambda>d. ''doc'') (cleanParsed (parsed item)) \<noteq> []"
    by (simp add: item_of_def)
  have t: "toLowerCase ''adverseWeatherCondition-adhesion'' = ''adverseweathercondition-adhesion''"
    by (simp add: toLowerCase_def lower_char_def)
  show ?thesis
    using export_idempotent [OF h, of "''prompt''"] t
    by (simp add: downloadJson_def downloadItem_def Let_def item_of_def cleanParsed_def
        cause_6_record_def withAssistant_def type_of_clean_def text_or_null_def code_or_null_def)
qed

end
